theory Spec2Isabelle
  imports Main "HOL-Library.Word" "HOL-Library.Sublist"
begin

section \<open>Go values used by the retry policy\<close>

text \<open>
  The policy is Go code.  Go's \<open>int\<close> is taken at its 64-bit width (the width on every
  64-bit platform) and \<open>time.Duration\<close> is an \<open>int64\<close> count of nanoseconds; both are
  64-bit words, so \<open>+\<close> and \<open>*\<close> wrap around as they do in Go, and \<open>sint\<close> reads the
  two's complement value.  A Go string is a sequence of bytes, here a \<open>char list\<close>.
\<close>

type_synonym go_int = "64 word"
type_synonym Duration = "64 word"

definition Millisecond :: Duration where
  "Millisecond = 1000000"

text \<open>A run-time panic is a value of the result type.\<close>

datatype panic = IndexOutOfRange

section \<open>The standard-library functions the policy calls\<close>

subsection \<open>\<open>strings.Contains\<close>\<close>

fun Contains :: "string \<Rightarrow> string \<Rightarrow> bool" where
  "Contains [] substr = (substr = [])"
| "Contains (c # cs) substr = (prefix substr (c # cs) \<or> Contains cs substr)"

subsection \<open>\<open>strings.Split\<close>\<close>

text \<open>
  The policy splits on the one-byte separators \<open>","\<close> and \<open>"="\<close> only, so the separator
  is a single byte.  \<open>splitFrom cur sep s\<close> scans \<open>s\<close> with \<open>cur\<close> the piece collected
  since the last separator.
\<close>

fun splitFrom :: "string \<Rightarrow> char \<Rightarrow> string \<Rightarrow> string list" where
  "splitFrom cur sep [] = [cur]"
| "splitFrom cur sep (c # cs) =
     (if c = sep then cur # splitFrom [] sep cs else splitFrom (cur @ [c]) sep cs)"

definition Split :: "string \<Rightarrow> char \<Rightarrow> string list" where
  "Split s sep = splitFrom [] sep s"

subsection \<open>\<open>strings.TrimSpace\<close>\<close>

text \<open>
  \<open>strings.TrimSpace\<close> removes leading and trailing white space as Unicode defines it
  (\<open>unicode.IsSpace\<close>).  On a byte string a white-space rune is one of the byte
  sequences below, the UTF-8 encodings of U+0009..U+000D, U+0020, U+0085, U+00A0,
  U+1680, U+2000..U+200A, U+2028, U+2029, U+202F, U+205F and U+3000.  Go's decoder
  accepts shortest-form encodings only, so no other byte sequence decodes to one of
  these runes.
\<close>

definition whiteSpaceUTF8 :: "string list" where
  "whiteSpaceUTF8 =
    [[CHR 0x09], [CHR 0x0A], [CHR 0x0B], [CHR 0x0C], [CHR 0x0D], [CHR 0x20],
     [CHR 0xC2, CHR 0x85], [CHR 0xC2, CHR 0xA0],
     [CHR 0xE1, CHR 0x9A, CHR 0x80],
     [CHR 0xE2, CHR 0x80, CHR 0x80], [CHR 0xE2, CHR 0x80, CHR 0x81],
     [CHR 0xE2, CHR 0x80, CHR 0x82], [CHR 0xE2, CHR 0x80, CHR 0x83],
     [CHR 0xE2, CHR 0x80, CHR 0x84], [CHR 0xE2, CHR 0x80, CHR 0x85],
     [CHR 0xE2, CHR 0x80, CHR 0x86], [CHR 0xE2, CHR 0x80, CHR 0x87],
     [CHR 0xE2, CHR 0x80, CHR 0x88], [CHR 0xE2, CHR 0x80, CHR 0x89],
     [CHR 0xE2, CHR 0x80, CHR 0x8A],
     [CHR 0xE2, CHR 0x80, CHR 0xA8], [CHR 0xE2, CHR 0x80, CHR 0xA9],
     [CHR 0xE2, CHR 0x80, CHR 0xAF],
     [CHR 0xE2, CHR 0x81, CHR 0x9F],
     [CHR 0xE3, CHR 0x80, CHR 0x80]]"

text \<open>The number of bytes of the white-space rune at the start (at the end) of a string,
  0 when there is none.\<close>

definition leadingSpace :: "string \<Rightarrow> nat" where
  "leadingSpace s =
     (case List.find (\<lambda>w. prefix w s) whiteSpaceUTF8 of None \<Rightarrow> 0 | Some w \<Rightarrow> length w)"

definition trailingSpace :: "string \<Rightarrow> nat" where
  "trailingSpace s =
     (case List.find (\<lambda>w. suffix w s) whiteSpaceUTF8 of None \<Rightarrow> 0 | Some w \<Rightarrow> length w)"

function TrimLeftSpace :: "string \<Rightarrow> string" where
  "TrimLeftSpace s =
     (if leadingSpace s = 0 then s else TrimLeftSpace (drop (leadingSpace s) s))"
  by pat_completeness auto
termination
proof (relation "measure length")
  show "wf (measure length)" by simp
next
  fix s :: string
  assume "leadingSpace s \<noteq> 0"
  moreover have "leadingSpace s \<le> length s"
    by (auto simp: leadingSpace_def prefix_length_le split: option.splits
        dest!: find_Some_iff[THEN iffD1])
  ultimately show "(drop (leadingSpace s) s, s) \<in> measure length" by simp
qed

function TrimRightSpace :: "string \<Rightarrow> string" where
  "TrimRightSpace s =
     (if trailingSpace s = 0 then s
      else TrimRightSpace (take (length s - trailingSpace s) s))"
  by pat_completeness auto
termination
proof (relation "measure length")
  show "wf (measure length)" by simp
next
  fix s :: string
  assume "trailingSpace s \<noteq> 0"
  moreover have "trailingSpace s \<le> length s"
    by (auto simp: trailingSpace_def suffix_length_le split: option.splits
        dest!: find_Some_iff[THEN iffD1])
  ultimately show "(take (length s - trailingSpace s) s, s) \<in> measure length" by simp
qed

declare TrimLeftSpace.simps [simp del] TrimRightSpace.simps [simp del]

definition TrimSpace :: "string \<Rightarrow> string" where
  "TrimSpace s = TrimRightSpace (TrimLeftSpace s)"

subsection \<open>\<open>strconv.Atoi\<close>\<close>

text \<open>
  \<open>strconv.Atoi s\<close> returns a value and an error.  For a string of 1 to 18 bytes it
  takes a fast path that cannot overflow; otherwise it is \<open>ParseInt(s, 10, 0)\<close>, which
  strips a sign and calls \<open>ParseUint\<close>.  \<open>ParseUint\<close> scans the bytes from the left: a
  byte that is no decimal digit ends the scan with a syntax error and the value 0, and
  an overflow of the unsigned 64-bit accumulator ends it with a range error and the
  largest value.  \<open>ParseInt\<close> turns a range error, or a magnitude beyond the signed
  range, into the nearest bound of \<open>int64\<close>, again with a range error.
\<close>

datatype NumError = ErrSyntax | ErrRange

definition isDigit :: "char \<Rightarrow> bool" where
  "isDigit c = (48 \<le> (of_char c :: nat) \<and> (of_char c :: nat) \<le> 57)"

definition digitVal :: "char \<Rightarrow> nat" where
  "digitVal c = of_char c - 48"

definition cutoff10 :: "64 word" where
  "cutoff10 = 1844674407370955162"

definition maxUint64 :: "64 word" where
  "maxUint64 = 18446744073709551615"

fun parseUintLoop :: "64 word \<Rightarrow> string \<Rightarrow> 64 word \<times> NumError option" where
  "parseUintLoop n [] = (n, None)"
| "parseUintLoop n (c # cs) =
     (if \<not> isDigit c then (0, Some ErrSyntax)
      else if cutoff10 \<le> n then (maxUint64, Some ErrRange)
      else if n * 10 + of_nat (digitVal c) < n * 10 \<or> maxUint64 < n * 10 + of_nat (digitVal c)
        then (maxUint64, Some ErrRange)
      else parseUintLoop (n * 10 + of_nat (digitVal c)) cs)"

definition ParseUint :: "string \<Rightarrow> 64 word \<times> NumError option" where
  "ParseUint s = (if s = [] then (0, Some ErrSyntax) else parseUintLoop 0 s)"

definition ParseInt :: "string \<Rightarrow> go_int \<times> NumError option" where
  "ParseInt s =
     (case s of
        [] \<Rightarrow> (0, Some ErrSyntax)
      | c # cs \<Rightarrow>
          (let neg = (c = CHR ''-'');
               (un, err) = ParseUint (if c = CHR ''+'' \<or> c = CHR ''-'' then cs else s)
           in if err = Some ErrSyntax then (0, err)
              else if \<not> neg \<and> 9223372036854775808 \<le> un
                then (9223372036854775807, Some ErrRange)
              else if neg \<and> 9223372036854775808 < un
                then (- 9223372036854775808, Some ErrRange)
              else (if neg then - un else un, None)))"

fun atoiFastLoop :: "go_int \<Rightarrow> string \<Rightarrow> go_int option" where
  "atoiFastLoop n [] = Some n"
| "atoiFastLoop n (c # cs) =
     (if \<not> isDigit c then None else atoiFastLoop (n * 10 + of_nat (digitVal c)) cs)"

definition atoiFast :: "string \<Rightarrow> go_int \<times> NumError option" where
  "atoiFast s0 =
     (let s = (if hd s0 = CHR ''-'' \<or> hd s0 = CHR ''+'' then tl s0 else s0)
      in if length s < 1 then (0, Some ErrSyntax)
         else (case atoiFastLoop 0 s of
                 None \<Rightarrow> (0, Some ErrSyntax)
               | Some n \<Rightarrow> (if hd s0 = CHR ''-'' then - n else n, None)))"

definition Atoi :: "string \<Rightarrow> go_int \<times> NumError option" where
  "Atoi s = (if 0 < length s \<and> length s < 19 then atoiFast s else ParseInt s)"

section \<open>The retry policy\<close>

record CosmosRetryPolicy =
  MaxRetryCount :: go_int
  FixedBackOffTimeMs :: go_int
  GrowingBackOffTimeMs :: go_int
  numAttempts :: go_int

definition defaultGrowingBackOffTimeMs :: go_int where
  "defaultGrowingBackOffTimeMs = 1000"

definition defaultFixedBackOffTimeMs :: go_int where
  "defaultFixedBackOffTimeMs = 5000"

definition NewCosmosRetryPolicy :: "go_int \<Rightarrow> CosmosRetryPolicy" where
  "NewCosmosRetryPolicy maxRetryCount =
     \<lparr>MaxRetryCount = maxRetryCount,
      FixedBackOffTimeMs = defaultFixedBackOffTimeMs,
      GrowingBackOffTimeMs = defaultGrowingBackOffTimeMs,
      numAttempts = 0\<rparr>"

text \<open>
  Of a \<open>gocql.RetryableQuery\<close> the policy calls \<open>Attempts()\<close> only; the query is the
  value that method returns.
\<close>

record RetryableQuery =
  Attempts :: go_int

text \<open>\<open>Attempt\<close> writes the field \<open>numAttempts\<close>: it returns its verdict and the policy
  after the call.\<close>

definition Attempt :: "CosmosRetryPolicy \<Rightarrow> RetryableQuery \<Rightarrow> bool \<times> CosmosRetryPolicy" where
  "Attempt crp rq =
     (let crp' = crp\<lparr>numAttempts := Attempts rq\<rparr>
      in (sint (Attempts rq) \<le> sint (MaxRetryCount crp') \<or> MaxRetryCount crp' = - 1, crp'))"

definition rateLimitingErrPart :: string where
  "rateLimitingErrPart = ''TooManyRequests (429)''"

definition retryAfterKey :: string where
  "retryAfterKey = ''RetryAfterMs''"

definition growingBackOffSaltMillis :: nat where
  "growingBackOffSaltMillis = 2000"

text \<open>
  \<open>getRetryAfterMs\<close>.  The argument \<open>salt\<close> is the number that
  \<open>rand.Intn(growingBackOffSaltMillis)\<close> returns in this call; the library promises
  \<open>0 \<le> salt < growingBackOffSaltMillis\<close>.  Indexing a slice beyond its length panics;
  \<open>strings.Split\<close> returns at least one piece, so index 0 is always there.
\<close>

definition getRetryAfterMs :: "CosmosRetryPolicy \<Rightarrow> nat \<Rightarrow> string \<Rightarrow> panic + Duration" where
  "getRetryAfterMs crp salt errMsg =
     (if Contains errMsg rateLimitingErrPart then
        (case Split errMsg CHR '','' of
           _ # retryPart # _ \<Rightarrow>
             (case Split retryPart CHR ''='' of
                key # rest \<Rightarrow>
                  if TrimSpace key = retryAfterKey then
                    (case rest of
                       val # _ \<Rightarrow> Inr (fst (Atoi val) * Millisecond)
                     | [] \<Rightarrow> Inl IndexOutOfRange)
                  else if - 1 < sint (MaxRetryCount crp) then
                    Inr (FixedBackOffTimeMs crp * Millisecond)
                  else
                    Inr ((GrowingBackOffTimeMs crp * numAttempts crp + of_nat salt)
                         * Millisecond)
              | [] \<Rightarrow> Inl IndexOutOfRange)
         | _ \<Rightarrow> Inl IndexOutOfRange)
      else Inr (- 1))"

text \<open>
  The errors \<open>GetRetryType\<close> tells apart: the three request errors of the driver, and
  any other error, of which only the text of \<open>Error()\<close> is read.  The driver calls
  \<open>GetRetryType\<close> with an error that is not \<open>nil\<close>.
\<close>

datatype error =
  RequestErrReadTimeout
| RequestErrUnavailable
| RequestErrWriteTimeout
| OtherError string

datatype RetryType = Retry | RetryNextHost | Ignore | Rethrow

text \<open>
  \<open>GetRetryType\<close> returns its verdict together with the duration it passed to
  \<open>time.Sleep\<close> before returning, \<open>None\<close> when it did not sleep.
\<close>

definition GetRetryType ::
  "CosmosRetryPolicy \<Rightarrow> nat \<Rightarrow> error \<Rightarrow> panic + (RetryType \<times> Duration option)" where
  "GetRetryType crp salt err =
     (case err of
        RequestErrReadTimeout \<Rightarrow> Inr (Retry, None)
      | RequestErrUnavailable \<Rightarrow> Inr (Retry, None)
      | RequestErrWriteTimeout \<Rightarrow> Inr (Retry, None)
      | OtherError msg \<Rightarrow>
          (case getRetryAfterMs crp salt msg of
             Inl p \<Rightarrow> Inl p
           | Inr retryAfterMs \<Rightarrow>
               if retryAfterMs = - 1 then Inr (Rethrow, None)
               else Inr (Retry, Some retryAfterMs)))"

section \<open>Vocabulary of the claims\<close>

text \<open>
  The integer a text denotes: an optional sign followed by one or more decimal digits,
  read in base ten.  \<open>intValue\<close> is \<open>None\<close> for a text of any other form.
\<close>

fun decFrom :: "nat \<Rightarrow> string \<Rightarrow> nat" where
  "decFrom n [] = n"
| "decFrom n (c # cs) = decFrom (n * 10 + digitVal c) cs"

definition isDecimal :: "string \<Rightarrow> bool" where
  "isDecimal ds = (ds \<noteq> [] \<and> list_all isDigit ds)"

definition intValue :: "string \<Rightarrow> int option" where
  "intValue s =
     (case s of
        [] \<Rightarrow> None
      | c # cs \<Rightarrow>
          if c = CHR ''+'' then (if isDecimal cs then Some (int (decFrom 0 cs)) else None)
          else if c = CHR ''-'' then (if isDecimal cs then Some (- int (decFrom 0 cs)) else None)
          else (if isDecimal s then Some (int (decFrom 0 s)) else None))"

text \<open>The two messages of the repository's tests, byte for byte.\<close>

definition reasonTail :: string where
  "reasonTail =
     ''Response status code does not indicate success: TooManyRequests (429); '' @
     ''Substatus: 3200; ActivityId: c268afb6-7367-4ff8-b06b-b7e2d1269f55; Reason: ({'' @
     [CHR 0x0A, CHR 0x09, CHR 0x22] @ ''Errors'' @ [CHR 0x22] @ '': ['' @
     [CHR 0x0A, CHR 0x09] @ ''  '' @ [CHR 0x22] @
     ''Request rate is large. More Request Units may be needed, so no changes were made. '' @
     ''Please retry this request later. Learn more: http://aka.ms/cosmosdb-error-429'' @
     [CHR 0x22, CHR 0x0A, CHR 0x09] @ '']'' @ [CHR 0x0A] @ ''  });''"

definition rateLimitedErrMsg :: string where
  "rateLimitedErrMsg =
     ''Request rate is large: ActivityID=c268afb6-7367-4ff8-b06b-b7e2d1269f55, '' @
     ''RetryAfterMs=42, Additional details='' @ [CHR 0x27] @ reasonTail"

definition rateLimitedErrMsgWithoutRetryAfterMs :: string where
  "rateLimitedErrMsgWithoutRetryAfterMs =
     ''Request rate is large: ActivityID=c268afb6-7367-4ff8-b06b-b7e2d1269f55, '' @
     ''Additional details='' @ [CHR 0x27] @ reasonTail"

section \<open>Arithmetic of durations\<close>

lemma ms_not_sentinel: "x * Millisecond \<noteq> (- 1 :: Duration)"
proof
  assume "x * Millisecond = - 1"
  moreover have "even (x * Millisecond)" by (simp add: Millisecond_def)
  moreover have "odd (- 1 :: Duration)" by simp
  ultimately show False by simp
qed

lemma sint_word_of_int64:
  assumes "- 9223372036854775808 \<le> k" and "k \<le> 9223372036854775807"
  shows "sint (word_of_int k :: 64 word) = k"
proof -
  have "signed_take_bit 63 k = k"
    using assms by (intro signed_take_bit_int_eq_self) simp_all
  then show ?thesis by (simp add: sint_sbintrunc')
qed

text \<open>A count of milliseconds between \<open>-9223372036854\<close> and \<open>9223372036854\<close> converts to
  nanoseconds without overflow.\<close>

lemma sint_ms:
  fixes r :: go_int
  assumes "- 9223372036854 \<le> sint r" and "sint r \<le> 9223372036854"
  shows "sint (r * Millisecond) = sint r * 1000000"
proof -
  have "r * Millisecond = word_of_int (sint r) * word_of_int 1000000"
    by (simp add: Millisecond_def)
  also have "\<dots> = word_of_int (sint r * 1000000)"
    by (simp only: of_int_mult)
  finally have "sint (r * Millisecond) = sint (word_of_int (sint r * 1000000) :: 64 word)"
    by simp
  also have "\<dots> = sint r * 1000000"
    using assms by (intro sint_word_of_int64) linarith+
  finally show ?thesis .
qed

section \<open>\<open>Atoi\<close> on the text of an integer\<close>

lemma decFrom_ge: "n \<le> decFrom n ds"
proof (induction ds arbitrary: n)
  case Nil
  show ?case by simp
next
  case (Cons c cs)
  have "n \<le> n * 10 + digitVal c" by simp
  also have "\<dots> \<le> decFrom (n * 10 + digitVal c) cs" by (rule Cons.IH)
  finally show ?case by simp
qed

lemma atoiFastLoop_digits:
  "list_all isDigit ds \<Longrightarrow> atoiFastLoop (of_nat m) ds = Some (of_nat (decFrom m ds))"
proof (induction ds arbitrary: m)
  case Nil
  show ?case by simp
next
  case (Cons c cs)
  from Cons.prems have c: "isDigit c" and cs: "list_all isDigit cs" by simp_all
  have e: "(of_nat m :: go_int) * 10 + of_nat (digitVal c) = of_nat (m * 10 + digitVal c)"
    by simp
  have "atoiFastLoop (of_nat m) (c # cs) = atoiFastLoop (of_nat (m * 10 + digitVal c)) cs"
    using c by (simp only: atoiFastLoop.simps e simp_thms if_False)
  also have "\<dots> = Some (of_nat (decFrom (m * 10 + digitVal c) cs))"
    by (rule Cons.IH [OF cs])
  finally show ?case by (simp only: decFrom.simps)
qed

lemma unat_of_nat64: "k < 2 ^ 64 \<Longrightarrow> unat (of_nat k :: 64 word) = k"
  by (simp add: unat_of_nat)

lemma parseUintLoop_digits:
  "list_all isDigit ds \<Longrightarrow> decFrom m ds < 2 ^ 64 \<Longrightarrow>
   parseUintLoop (of_nat m) ds = (of_nat (decFrom m ds), None)"
proof (induction ds arbitrary: m)
  case Nil
  show ?case by simp
next
  case (Cons c cs)
  from Cons.prems have c: "isDigit c" and cs: "list_all isDigit cs" by simp_all
  let ?m' = "m * 10 + digitVal c"
  have "?m' \<le> decFrom ?m' cs" by (rule decFrom_ge)
  with Cons.prems(2) have m': "?m' < 2 ^ 64" by simp
  then have m10: "m * 10 < 2 ^ 64" and m: "m < 2 ^ 64" by simp_all
  have um: "unat (of_nat m :: 64 word) = m"
    using m by (rule unat_of_nat64)
  have um10: "unat (of_nat m * 10 :: 64 word) = m * 10"
    using unat_of_nat64 [OF m10] by simp
  have um': "unat (of_nat m * 10 + of_nat (digitVal c) :: 64 word) = ?m'"
    using unat_of_nat64 [OF m'] by simp
  have n1: "\<not> cutoff10 \<le> (of_nat m :: 64 word)"
    using m10 by (simp add: word_le_nat_alt um cutoff10_def)
  have n2: "\<not> (of_nat m * 10 + of_nat (digitVal c) < (of_nat m * 10 :: 64 word))"
    by (simp add: word_less_nat_alt um10 um')
  have n3: "\<not> maxUint64 < (of_nat m * 10 + of_nat (digitVal c) :: 64 word)"
    using m' by (simp add: word_less_nat_alt um' maxUint64_def)
  have e: "(of_nat m :: 64 word) * 10 + of_nat (digitVal c) = of_nat ?m'"
    by simp
  have "parseUintLoop (of_nat m) (c # cs) = parseUintLoop (of_nat ?m') cs"
    using c n1 n2 n3 by (simp only: parseUintLoop.simps simp_thms if_False e [symmetric])
  also have "\<dots> = (of_nat (decFrom ?m' cs), None)"
    using Cons.prems(2) by (intro Cons.IH [OF cs]) simp
  finally show ?case by (simp only: decFrom.simps)
qed

lemma isDigit_not_sign: "isDigit c \<Longrightarrow> c \<noteq> CHR ''-'' \<and> c \<noteq> CHR ''+''"
  by (auto simp: isDigit_def)

lemma atoiFastLoop_decimal:
  "isDecimal ds \<Longrightarrow> atoiFastLoop 0 ds = Some (of_nat (decFrom 0 ds))"
  using atoiFastLoop_digits [of ds 0] by (simp add: isDecimal_def)

lemma parseUint_decimal:
  assumes "isDecimal ds" and "decFrom 0 ds < 2 ^ 64"
  shows "ParseUint ds = (of_nat (decFrom 0 ds), None)"
  using assms parseUintLoop_digits [of ds 0] by (simp add: isDecimal_def ParseUint_def)

lemma atoiFast_unsigned:
  assumes "isDecimal ds"
  shows "atoiFast ds = (of_nat (decFrom 0 ds), None)"
proof -
  from assms obtain c cs where ds: "ds = c # cs" and c: "isDigit c"
    by (cases ds) (auto simp: isDecimal_def)
  from c have "c \<noteq> CHR ''-''" and "c \<noteq> CHR ''+''"
    using isDigit_not_sign by blast+
  then show ?thesis
    using atoiFastLoop_decimal [OF assms] by (simp add: atoiFast_def ds)
qed

lemma atoiFast_plus:
  assumes "isDecimal ds"
  shows "atoiFast (CHR ''+'' # ds) = (of_nat (decFrom 0 ds), None)"
proof -
  from assms have "ds \<noteq> []" by (simp add: isDecimal_def)
  then have "\<not> length ds < 1" by (cases ds) simp_all
  then show ?thesis
    using atoiFastLoop_decimal [OF assms] by (simp add: atoiFast_def)
qed

lemma atoiFast_minus:
  assumes "isDecimal ds"
  shows "atoiFast (CHR ''-'' # ds) = (- of_nat (decFrom 0 ds), None)"
proof -
  from assms have "ds \<noteq> []" by (simp add: isDecimal_def)
  then have "\<not> length ds < 1" by (cases ds) simp_all
  then show ?thesis
    using atoiFastLoop_decimal [OF assms] by (simp add: atoiFast_def)
qed

lemma small_not_cutoff:
  assumes "d < 2 ^ 63"
  shows "\<not> 9223372036854775808 \<le> (of_nat d :: 64 word)"
    and "\<not> 9223372036854775808 < (of_nat d :: 64 word)"
proof -
  from assms have "d < 2 ^ 64" by simp
  then have u: "unat (of_nat d :: 64 word) = d" by (rule unat_of_nat64)
  show "\<not> 9223372036854775808 \<le> (of_nat d :: 64 word)"
    using assms by (simp add: word_le_nat_alt u)
  show "\<not> 9223372036854775808 < (of_nat d :: 64 word)"
    using assms by (simp add: word_less_nat_alt u)
qed

lemma parseInt_unsigned:
  assumes "isDecimal ds" and "decFrom 0 ds < 2 ^ 63"
  shows "ParseInt ds = (of_nat (decFrom 0 ds), None)"
proof -
  from assms(1) obtain c cs where ds: "ds = c # cs" and c: "isDigit c"
    by (cases ds) (auto simp: isDecimal_def)
  from c have ns: "c \<noteq> CHR ''-''" "c \<noteq> CHR ''+''"
    using isDigit_not_sign by blast+
  from assms(2) have "decFrom 0 ds < 2 ^ 64" by simp
  then have pu: "ParseUint (c # cs) = (of_nat (decFrom 0 ds), None)"
    using parseUint_decimal [OF assms(1)] by (simp add: ds)
  show ?thesis
    using ns pu small_not_cutoff [OF assms(2)] by (simp add: ParseInt_def ds)
qed

lemma parseInt_plus:
  assumes "isDecimal ds" and "decFrom 0 ds < 2 ^ 63"
  shows "ParseInt (CHR ''+'' # ds) = (of_nat (decFrom 0 ds), None)"
proof -
  from assms(2) have "decFrom 0 ds < 2 ^ 64" by simp
  then have pu: "ParseUint ds = (of_nat (decFrom 0 ds), None)"
    by (rule parseUint_decimal [OF assms(1)])
  show ?thesis
    using pu small_not_cutoff [OF assms(2)] by (simp add: ParseInt_def)
qed

lemma parseInt_minus:
  assumes "isDecimal ds" and "decFrom 0 ds < 2 ^ 63"
  shows "ParseInt (CHR ''-'' # ds) = (- of_nat (decFrom 0 ds), None)"
proof -
  from assms(2) have "decFrom 0 ds < 2 ^ 64" by simp
  then have pu: "ParseUint ds = (of_nat (decFrom 0 ds), None)"
    by (rule parseUint_decimal [OF assms(1)])
  show ?thesis
    using pu small_not_cutoff [OF assms(2)] by (simp add: ParseInt_def)
qed

text \<open>On the text of an integer inside the range of \<open>int64\<close>, \<open>Atoi\<close> returns that integer
  and no error, on the fast path and on the slow one.\<close>

lemma Atoi_intValue:
  assumes "intValue s = Some v" and "- (2 ^ 63) < v" and "v < 2 ^ 63"
  shows "Atoi s = (word_of_int v, None)"
proof (cases s)
  case Nil
  with assms(1) show ?thesis by (simp add: intValue_def)
next
  case (Cons c cs)
  consider (plus) "c = CHR ''+''" | (minus) "c = CHR ''-''"
    | (digit) "c \<noteq> CHR ''+''" "c \<noteq> CHR ''-''" by blast
  then show ?thesis
  proof cases
    case plus
    with assms(1) Cons have d: "isDecimal cs" and v: "v = int (decFrom 0 cs)"
      by (auto simp: intValue_def split: if_splits)
    from v assms(3) have "decFrom 0 cs < 2 ^ 63" by simp
    with d show ?thesis
      by (simp add: Atoi_def Cons plus atoiFast_plus parseInt_plus v)
  next
    case minus
    with assms(1) Cons have d: "isDecimal cs" and v: "v = - int (decFrom 0 cs)"
      by (auto simp: intValue_def split: if_splits)
    from v assms(2) have "decFrom 0 cs < 2 ^ 63" by simp
    with d show ?thesis
      by (simp add: Atoi_def Cons minus atoiFast_minus parseInt_minus v)
  next
    case digit
    with assms(1) Cons have d: "isDecimal s" and v: "v = int (decFrom 0 s)"
      by (auto simp: intValue_def split: if_splits)
    from v assms(3) have "decFrom 0 s < 2 ^ 63" by simp
    with d show ?thesis
      by (simp add: Atoi_def atoiFast_unsigned parseInt_unsigned v)
  qed
qed







text \<open>A text shorter than 19 bytes that is not the text of an integer is a syntax
  error.\<close>

lemma atoiFastLoop_not_digits: "\<not> list_all isDigit ds \<Longrightarrow> atoiFastLoop n ds = None"
  by (induction ds arbitrary: n) auto

lemma atoiFast_not_integer:
  assumes "intValue s = None" and "s \<noteq> []"
  shows "atoiFast s = (0, Some ErrSyntax)"
proof -
  from assms(2) obtain c cs where s: "s = c # cs" by (cases s) auto
  consider (sign) "c = CHR ''+'' \<or> c = CHR ''-''"
    | (digit) "c \<noteq> CHR ''+''" "c \<noteq> CHR ''-''" by blast
  then show ?thesis
  proof cases
    case sign
    with assms(1) s have "\<not> isDecimal cs"
      by (auto simp: intValue_def split: if_splits)
    then have "cs = [] \<or> atoiFastLoop 0 cs = None"
      using atoiFastLoop_not_digits by (auto simp: isDecimal_def)
    with sign s show ?thesis
      by (cases cs) (auto simp: atoiFast_def)
  next
    case digit
    with assms(1) s have "\<not> isDecimal s"
      by (auto simp: intValue_def split: if_splits)
    with s have "atoiFastLoop 0 s = None"
      using atoiFastLoop_not_digits by (auto simp: isDecimal_def)
    with digit s show ?thesis
      by (simp add: atoiFast_def)
  qed
qed

lemma Atoi_short_not_integer:
  assumes "intValue s = None" and "length s < 19"
  shows "Atoi s = (0, Some ErrSyntax)"
proof (cases "s = []")
  case True
  then show ?thesis by (simp add: Atoi_def ParseInt_def)
next
  case False
  with assms(2) have "Atoi s = atoiFast s" by (simp add: Atoi_def)
  with assms(1) False show ?thesis by (simp add: atoiFast_not_integer)
qed

section \<open>The branches of \<open>getRetryAfterMs\<close>\<close>

lemma getRetryAfterMs_no_marker:
  "\<not> Contains errMsg rateLimitingErrPart \<Longrightarrow> getRetryAfterMs crp salt errMsg = Inr (- 1)"
  by (simp add: getRetryAfterMs_def)

lemma splitFrom_nonempty: "splitFrom cur sep s \<noteq> []"
  by (induction s arbitrary: cur) auto

lemma Split_nonempty: "Split s sep \<noteq> []"
  by (simp add: Split_def splitFrom_nonempty)

lemma second_piece:
  assumes "1 < length xs"
  obtains x0 x1 xs' where "xs = x0 # x1 # xs'" and "xs ! 1 = x1"
proof (cases xs)
  case Nil
  with assms show ?thesis by simp
next
  case (Cons x0 ys)
  with assms obtain y ys' where "ys = y # ys'" by (cases ys) auto
  with Cons that show ?thesis by simp
qed

lemma getRetryAfterMs_no_comma:
  assumes "Contains errMsg rateLimitingErrPart"
    and "length (Split errMsg CHR '','') \<le> 1"
  shows "getRetryAfterMs crp salt errMsg = Inl IndexOutOfRange"
proof (cases "Split errMsg CHR '',''")
  case Nil
  with assms(1) show ?thesis by (simp add: getRetryAfterMs_def)
next
  case (Cons x0 xs)
  with assms(2) have "xs = []" by simp
  with Cons assms(1) show ?thesis by (simp add: getRetryAfterMs_def)
qed

lemma getRetryAfterMs_key_no_value:
  assumes "Contains errMsg rateLimitingErrPart"
    and "1 < length (Split errMsg CHR '','')"
    and "Split (Split errMsg CHR '','' ! 1) CHR ''='' = [key]"
    and "TrimSpace key = retryAfterKey"
  shows "getRetryAfterMs crp salt errMsg = Inl IndexOutOfRange"
proof -
  from assms(2) obtain p0 retryPart ps
    where p: "Split errMsg CHR '','' = p0 # retryPart # ps"
      and r: "Split errMsg CHR '','' ! 1 = retryPart"
    by (rule second_piece)
  from assms(3) r have "Split retryPart CHR ''='' = [key]" by simp
  with p assms(1,4) show ?thesis by (simp add: getRetryAfterMs_def)
qed

lemma getRetryAfterMs_key:
  assumes "Contains errMsg rateLimitingErrPart"
    and "1 < length (Split errMsg CHR '','')"
    and "Split (Split errMsg CHR '','' ! 1) CHR ''='' = key # val # vs"
    and "TrimSpace key = retryAfterKey"
  shows "getRetryAfterMs crp salt errMsg = Inr (fst (Atoi val) * Millisecond)"
proof -
  from assms(2) obtain p0 retryPart ps
    where p: "Split errMsg CHR '','' = p0 # retryPart # ps"
      and r: "Split errMsg CHR '','' ! 1 = retryPart"
    by (rule second_piece)
  from assms(3) r have "Split retryPart CHR ''='' = key # val # vs" by simp
  with p assms(1,4) show ?thesis by (simp add: getRetryAfterMs_def)
qed

lemma getRetryAfterMs_no_key:
  assumes "Contains errMsg rateLimitingErrPart"
    and "1 < length (Split errMsg CHR '','')"
    and "TrimSpace (hd (Split (Split errMsg CHR '','' ! 1) CHR ''='')) \<noteq> retryAfterKey"
  shows "getRetryAfterMs crp salt errMsg =
           (if - 1 < sint (MaxRetryCount crp) then Inr (FixedBackOffTimeMs crp * Millisecond)
            else Inr ((GrowingBackOffTimeMs crp * numAttempts crp + of_nat salt) * Millisecond))"
proof -
  from assms(2) obtain p0 retryPart ps
    where p: "Split errMsg CHR '','' = p0 # retryPart # ps"
      and r: "Split errMsg CHR '','' ! 1 = retryPart"
    by (rule second_piece)
  obtain key rest where k: "Split retryPart CHR ''='' = key # rest"
    using Split_nonempty by (cases "Split retryPart CHR ''=''") auto
  with assms(3) r have "TrimSpace key \<noteq> retryAfterKey" by simp
  with p k assms(1) show ?thesis by (simp add: getRetryAfterMs_def)
qed

text \<open>With the marker present, a returned duration is a whole number of milliseconds,
  in the arithmetic of 64-bit words.\<close>

lemma marker_gives_ms:
  assumes "Contains errMsg rateLimitingErrPart"
    and "getRetryAfterMs crp salt errMsg = Inr d"
  shows "\<exists>m. d = m * Millisecond"
  using assms by (auto simp: getRetryAfterMs_def split: list.splits if_splits)

text \<open>The sum of the growing backoff, when it stays inside the range of \<open>int64\<close>.\<close>

lemma sint_growing:
  fixes g n :: go_int
  assumes "- 9223372036854775808 \<le> sint g * sint n + int salt"
    and "sint g * sint n + int salt \<le> 9223372036854775807"
  shows "sint (g * n + of_nat salt) = sint g * sint n + int salt"
proof -
  have "g * n + of_nat salt = word_of_int (sint g) * word_of_int (sint n) + word_of_int (int salt)"
    by simp
  also have "\<dots> = word_of_int (sint g * sint n + int salt)"
    by (simp only: of_int_mult of_int_add)
  finally have "sint (g * n + of_nat salt) = sint (word_of_int (sint g * sint n + int salt) :: 64 word)"
    by simp
  also have "\<dots> = sint g * sint n + int salt"
    using assms by (rule sint_word_of_int64)
  finally show ?thesis .
qed

section \<open>The claims\<close>

text \<open>
  C1.  For every policy and every retryable query \<open>rq\<close>, \<open>Attempt\<close> returns true exactly
  when \<open>rq.Attempts() \<le> MaxRetryCount\<close> (a signed comparison) or \<open>MaxRetryCount = -1\<close>.
  Its only effect on the policy is to store \<open>rq.Attempts()\<close> in \<open>numAttempts\<close>;
  \<open>MaxRetryCount\<close>, \<open>FixedBackOffTimeMs\<close> and \<open>GrowingBackOffTimeMs\<close> keep their values.
\<close>

theorem Attempt_verdict_and_effect:
  "fst (Attempt crp rq) =
     (sint (Attempts rq) \<le> sint (MaxRetryCount crp) \<or> MaxRetryCount crp = - 1)
   \<and> snd (Attempt crp rq) = crp\<lparr>numAttempts := Attempts rq\<rparr>
   \<and> numAttempts (snd (Attempt crp rq)) = Attempts rq
   \<and> MaxRetryCount (snd (Attempt crp rq)) = MaxRetryCount crp
   \<and> FixedBackOffTimeMs (snd (Attempt crp rq)) = FixedBackOffTimeMs crp
   \<and> GrowingBackOffTimeMs (snd (Attempt crp rq)) = GrowingBackOffTimeMs crp"
  by (simp add: Attempt_def Let_def)

text \<open>
  C2.  The claim is that \<open>getRetryAfterMs\<close> and \<open>GetRetryType\<close> return normally on
  every error, malformed rate-limit messages included.  The code does not: on a message
  that holds the marker and no comma, \<open>strings.Split\<close> returns one piece and
  \<open>parts[1]\<close> is out of range; on a message whose second comma-delimited fragment is
  the key \<open>RetryAfterMs\<close> with no \<open>=\<close>, \<open>retryAfterMs[1]\<close> is out of range.  Both
  calls panic, here the value \<open>Inl IndexOutOfRange\<close>, for every policy.
\<close>

theorem malformed_rate_limit_message_panics:
  "getRetryAfterMs crp salt ''TooManyRequests (429)'' = Inl IndexOutOfRange
   \<and> GetRetryType crp salt (OtherError ''TooManyRequests (429)'') = Inl IndexOutOfRange
   \<and> getRetryAfterMs crp salt ''a, RetryAfterMs, TooManyRequests (429)'' = Inl IndexOutOfRange
   \<and> GetRetryType crp salt (OtherError ''a, RetryAfterMs, TooManyRequests (429)'')
       = Inl IndexOutOfRange"
proof -
  have c1: "Contains ''TooManyRequests (429)'' rateLimitingErrPart"
    by code_simp
  have l1: "length (Split ''TooManyRequests (429)'' CHR '','') \<le> 1"
    by code_simp
  have c2: "Contains ''a, RetryAfterMs, TooManyRequests (429)'' rateLimitingErrPart"
    by code_simp
  have l2: "1 < length (Split ''a, RetryAfterMs, TooManyRequests (429)'' CHR '','')"
    by code_simp
  have s2: "Split (Split ''a, RetryAfterMs, TooManyRequests (429)'' CHR '','' ! 1) CHR ''=''
              = ['' RetryAfterMs'']"
    by code_simp
  have t2: "TrimSpace '' RetryAfterMs'' = retryAfterKey"
    by code_simp
  have p1: "getRetryAfterMs crp salt ''TooManyRequests (429)'' = Inl IndexOutOfRange"
    using c1 l1 by (rule getRetryAfterMs_no_comma)
  have p2: "getRetryAfterMs crp salt ''a, RetryAfterMs, TooManyRequests (429)''
              = Inl IndexOutOfRange"
    using c2 l2 s2 t2 by (rule getRetryAfterMs_key_no_value)
  show ?thesis
    by (simp only: p1 p2 GetRetryType_def error.case sum.case simp_thms)
qed

text \<open>
  C3.  As stated, for every integer \<open>v\<close>, the claim fails: the duration is the \<open>int64\<close>
  product of the parsed value and \<open>1000000\<close>, which wraps around once \<open>v\<close>
  milliseconds exceed what \<open>time.Duration\<close> can hold (and \<open>Atoi\<close> itself clamps a
  value outside \<open>int64\<close>).  Amended: for every error outside the three request errors
  whose message contains the marker and whose second comma-delimited fragment splits at
  \<open>=\<close> into a key that trims to \<open>RetryAfterMs\<close> and the text of an integer \<open>v\<close> with
  \<open>-9223372036854 \<le> v \<le> 9223372036854\<close>, \<open>getRetryAfterMs\<close> returns exactly \<open>v\<close>
  milliseconds, that is \<open>v * 1000000\<close> nanoseconds.  The message of the repository's
  test, with \<open>RetryAfterMs=42\<close>, gives 42 ms.
\<close>

theorem server_value_is_the_delay:
  assumes "Contains errMsg rateLimitingErrPart"
    and "1 < length (Split errMsg CHR '','')"
    and "Split (Split errMsg CHR '','' ! 1) CHR ''='' = key # val # vs"
    and "TrimSpace key = retryAfterKey"
    and "intValue val = Some v"
    and "- 9223372036854 \<le> v" and "v \<le> 9223372036854"
  shows "\<exists>d. getRetryAfterMs crp salt errMsg = Inr d \<and> sint d = v * 1000000"
proof -
  have "Atoi val = (word_of_int v, None)"
    using assms(5-7) by (intro Atoi_intValue) simp_all
  then have r: "getRetryAfterMs crp salt errMsg = Inr (word_of_int v * Millisecond)"
    using getRetryAfterMs_key [OF assms(1-4), of crp salt] by simp
  have sv: "sint (word_of_int v :: go_int) = v"
    using assms(6,7) by (intro sint_word_of_int64) simp_all
  have "sint (word_of_int v * Millisecond :: Duration) = v * 1000000"
    using sint_ms [of "word_of_int v"] assms(6,7) by (simp only: sv)
  with r show ?thesis by blast
qed

text \<open>The theorem at the message of the repository's test.\<close>

theorem server_value_is_the_delay_witness:
  "Contains rateLimitedErrMsg rateLimitingErrPart
   \<and> 1 < length (Split rateLimitedErrMsg CHR '','')
   \<and> Split (Split rateLimitedErrMsg CHR '','' ! 1) CHR ''='' = ['' RetryAfterMs'', ''42'']
   \<and> TrimSpace '' RetryAfterMs'' = retryAfterKey
   \<and> intValue ''42'' = Some 42
   \<and> (\<exists>d. getRetryAfterMs (NewCosmosRetryPolicy 5) 0 rateLimitedErrMsg = Inr d
            \<and> sint d = 42 * 1000000)"
proof -
  have h1: "Contains rateLimitedErrMsg rateLimitingErrPart" by code_simp
  have h2: "1 < length (Split rateLimitedErrMsg CHR '','')" by code_simp
  have h3: "Split (Split rateLimitedErrMsg CHR '','' ! 1) CHR ''=''
              = ['' RetryAfterMs'', ''42'']" by code_simp
  have h4: "TrimSpace '' RetryAfterMs'' = retryAfterKey" by code_simp
  have h5: "intValue ''42'' = Some 42"
    by (simp add: intValue_def isDecimal_def isDigit_def digitVal_def)
  have h6: "- 9223372036854 \<le> (42 :: int)" by simp
  have h7: "(42 :: int) \<le> 9223372036854" by simp
  from server_value_is_the_delay [OF h1 h2 h3 h4 h5 h6 h7, of "NewCosmosRetryPolicy 5" 0]
    h1 h2 h3 h4 h5
  show ?thesis by blast
qed

text \<open>The claim as stated fails at \<open>v = 10000000000000\<close>: the text parses, and the product wraps around to a negative duration.\<close>

theorem server_value_overflow_counterexample:
  "Contains ''x, RetryAfterMs=10000000000000, TooManyRequests (429)'' rateLimitingErrPart
   \<and> Split (Split ''x, RetryAfterMs=10000000000000, TooManyRequests (429)'' CHR '','' ! 1)
         CHR ''='' = ['' RetryAfterMs'', ''10000000000000'']
   \<and> TrimSpace '' RetryAfterMs'' = retryAfterKey
   \<and> intValue ''10000000000000'' = Some 10000000000000
   \<and> getRetryAfterMs (NewCosmosRetryPolicy 5) 0
         ''x, RetryAfterMs=10000000000000, TooManyRequests (429)''
       = Inr (- 8446744073709551616)
   \<and> sint (- 8446744073709551616 :: Duration) \<noteq> 10000000000000 * 1000000"
proof -
  have h1: "Contains ''x, RetryAfterMs=10000000000000, TooManyRequests (429)''
              rateLimitingErrPart" by code_simp
  have h3: "Split (Split ''x, RetryAfterMs=10000000000000, TooManyRequests (429)'' CHR '','' ! 1)
         CHR ''='' = ['' RetryAfterMs'', ''10000000000000'']" by code_simp
  have h4: "TrimSpace '' RetryAfterMs'' = retryAfterKey" by code_simp
  have h5: "intValue ''10000000000000'' = Some 10000000000000"
    by (simp add: intValue_def isDecimal_def isDigit_def digitVal_def)
  have r: "getRetryAfterMs (NewCosmosRetryPolicy 5) 0
         ''x, RetryAfterMs=10000000000000, TooManyRequests (429)''
       = Inr (- 8446744073709551616)" by code_simp
  have n: "sint (- 8446744073709551616 :: Duration) \<noteq> 10000000000000 * 1000000" by simp
  from h1 h3 h4 h5 r n show ?thesis by blast
qed

text \<open>
  C4.  As stated, for every policy, the claim fails where the arithmetic overflows.
  Amended: for every policy with \<open>MaxRetryCount = -1\<close>, every message that contains the
  marker and has a second comma-delimited fragment whose key does not trim to
  \<open>RetryAfterMs\<close>, and every draw \<open>salt\<close> of \<open>rand.Intn(2000)\<close> (so \<open>0 \<le> salt < 2000\<close>),
  if \<open>GrowingBackOffTimeMs * numAttempts + salt\<close> lies between \<open>-9223372036854\<close> and
  \<open>9223372036854\<close> then \<open>getRetryAfterMs\<close> returns exactly that many milliseconds.
  With \<open>GrowingBackOffTimeMs = 1000\<close> and \<open>numAttempts = 2\<close> the delay is at least
  2000 ms and less than 4000 ms.
\<close>

theorem growing_backoff_when_unbounded:
  assumes "Contains errMsg rateLimitingErrPart"
    and "1 < length (Split errMsg CHR '','')"
    and "TrimSpace (hd (Split (Split errMsg CHR '','' ! 1) CHR ''='')) \<noteq> retryAfterKey"
    and "MaxRetryCount crp = - 1"
    and "salt < growingBackOffSaltMillis"
  shows "\<exists>d. getRetryAfterMs crp salt errMsg = Inr d
           \<and> d = (GrowingBackOffTimeMs crp * numAttempts crp + of_nat salt) * Millisecond
           \<and> (- 9223372036854
                  \<le> sint (GrowingBackOffTimeMs crp) * sint (numAttempts crp) + int salt
                \<and> sint (GrowingBackOffTimeMs crp) * sint (numAttempts crp) + int salt
                  \<le> 9223372036854
                \<longrightarrow> sint d
                    = (sint (GrowingBackOffTimeMs crp) * sint (numAttempts crp) + int salt)
                      * 1000000)
           \<and> (GrowingBackOffTimeMs crp = 1000 \<and> numAttempts crp = 2
                \<longrightarrow> 2000 * 1000000 \<le> sint d \<and> sint d < 4000 * 1000000)"
proof -
  let ?m = "GrowingBackOffTimeMs crp * numAttempts crp + of_nat salt"
  let ?v = "sint (GrowingBackOffTimeMs crp) * sint (numAttempts crp) + int salt"
  have "\<not> - 1 < sint (MaxRetryCount crp)"
    using assms(4) by simp
  then have r: "getRetryAfterMs crp salt errMsg = Inr (?m * Millisecond)"
    using getRetryAfterMs_no_key [OF assms(1-3), of crp salt] by simp
  have d: "sint (?m * Millisecond) = ?v * 1000000"
    if lo: "- 9223372036854 \<le> ?v" and hi: "?v \<le> 9223372036854"
  proof -
    have m: "sint ?m = ?v"
      using lo hi by (intro sint_growing) linarith+
    show ?thesis
      using sint_ms [of ?m] lo hi by (simp only: m)
  qed
  have "2000 * 1000000 \<le> sint (?m * Millisecond) \<and> sint (?m * Millisecond) < 4000 * 1000000"
    if g: "GrowingBackOffTimeMs crp = 1000" and n: "numAttempts crp = 2"
  proof -
    from assms(5) have b: "salt < 2000" by (simp add: growingBackOffSaltMillis_def)
    from g n have v: "?v = 2000 + int salt" by simp
    with b have "- 9223372036854 \<le> ?v" and "?v \<le> 9223372036854" by simp_all
    then have "sint (?m * Millisecond) = ?v * 1000000" by (rule d)
    with v b show ?thesis by simp
  qed
  with r d show ?thesis by blast
qed

text \<open>The theorem at the test's message without \<open>RetryAfterMs\<close>, with \<open>numAttempts = 2\<close> and the draw 1234.\<close>

theorem growing_backoff_when_unbounded_witness:
  "Contains rateLimitedErrMsgWithoutRetryAfterMs rateLimitingErrPart
   \<and> 1 < length (Split rateLimitedErrMsgWithoutRetryAfterMs CHR '','')
   \<and> TrimSpace (hd (Split (Split rateLimitedErrMsgWithoutRetryAfterMs CHR '','' ! 1) CHR ''=''))
       \<noteq> retryAfterKey
   \<and> MaxRetryCount ((NewCosmosRetryPolicy (- 1))\<lparr>numAttempts := 2\<rparr>) = - 1
   \<and> 1234 < growingBackOffSaltMillis
   \<and> (\<exists>d. getRetryAfterMs ((NewCosmosRetryPolicy (- 1))\<lparr>numAttempts := 2\<rparr>) 1234
              rateLimitedErrMsgWithoutRetryAfterMs = Inr d
            \<and> sint d = 3234 * 1000000
            \<and> 2000 * 1000000 \<le> sint d \<and> sint d < 4000 * 1000000)"
proof -
  let ?crp = "(NewCosmosRetryPolicy (- 1))\<lparr>numAttempts := 2\<rparr>"
  have h1: "Contains rateLimitedErrMsgWithoutRetryAfterMs rateLimitingErrPart" by code_simp
  have h2: "1 < length (Split rateLimitedErrMsgWithoutRetryAfterMs CHR '','')" by code_simp
  have h3: "TrimSpace (hd (Split (Split rateLimitedErrMsgWithoutRetryAfterMs CHR '','' ! 1)
              CHR ''='')) \<noteq> retryAfterKey" by code_simp
  have h4: "MaxRetryCount ?crp = - 1" by (simp add: NewCosmosRetryPolicy_def)
  have h5: "1234 < growingBackOffSaltMillis" by (simp add: growingBackOffSaltMillis_def)
  have g: "GrowingBackOffTimeMs ?crp = 1000" and n: "numAttempts ?crp = 2"
    by (simp_all add: NewCosmosRetryPolicy_def defaultGrowingBackOffTimeMs_def)
  have v: "sint (GrowingBackOffTimeMs ?crp) * sint (numAttempts ?crp) + int 1234 = 3234"
    by (simp only: g n) simp
  from growing_backoff_when_unbounded [OF h1 h2 h3 h4 h5]
  obtain d where r: "getRetryAfterMs ?crp 1234 rateLimitedErrMsgWithoutRetryAfterMs = Inr d"
    and e: "- 9223372036854
              \<le> sint (GrowingBackOffTimeMs ?crp) * sint (numAttempts ?crp) + int 1234
            \<and> sint (GrowingBackOffTimeMs ?crp) * sint (numAttempts ?crp) + int 1234
              \<le> 9223372036854
            \<longrightarrow> sint d
                = (sint (GrowingBackOffTimeMs ?crp) * sint (numAttempts ?crp) + int 1234)
                  * 1000000"
    and i: "GrowingBackOffTimeMs ?crp = 1000 \<and> numAttempts ?crp = 2
            \<longrightarrow> 2000 * 1000000 \<le> sint d \<and> sint d < 4000 * 1000000"
    by blast
  from e have "sint d = 3234 * 1000000" by (simp only: v) simp
  moreover from i g n have "2000 * 1000000 \<le> sint d \<and> sint d < 4000 * 1000000" by blast
  ultimately show ?thesis using r h1 h2 h3 h4 h5 by blast
qed

text \<open>The claim as stated fails at \<open>GrowingBackOffTimeMs = 10000000000000\<close>, \<open>numAttempts = 1\<close>: the duration is negative for the draw 0, and the claimed delay is positive.\<close>

theorem growing_backoff_overflow_counterexample:
  "MaxRetryCount ((NewCosmosRetryPolicy (- 1))
       \<lparr>GrowingBackOffTimeMs := 10000000000000, numAttempts := 1\<rparr>) = - 1
   \<and> Contains ''x, y TooManyRequests (429)'' rateLimitingErrPart
   \<and> TrimSpace (hd (Split (Split ''x, y TooManyRequests (429)'' CHR '','' ! 1) CHR ''=''))
       \<noteq> retryAfterKey
   \<and> getRetryAfterMs ((NewCosmosRetryPolicy (- 1))
         \<lparr>GrowingBackOffTimeMs := 10000000000000, numAttempts := 1\<rparr>) 0
         ''x, y TooManyRequests (429)'' = Inr (- 8446744073709551616)
   \<and> sint (- 8446744073709551616 :: Duration) < (10000000000000 * 1 + 0) * 1000000"
proof -
  have h0: "MaxRetryCount ((NewCosmosRetryPolicy (- 1))
       \<lparr>GrowingBackOffTimeMs := 10000000000000, numAttempts := 1\<rparr>) = - 1"
    by (simp add: NewCosmosRetryPolicy_def)
  have h1: "Contains ''x, y TooManyRequests (429)'' rateLimitingErrPart" by code_simp
  have h3: "TrimSpace (hd (Split (Split ''x, y TooManyRequests (429)'' CHR '','' ! 1) CHR ''=''))
       \<noteq> retryAfterKey" by code_simp
  have r: "getRetryAfterMs ((NewCosmosRetryPolicy (- 1))
         \<lparr>GrowingBackOffTimeMs := 10000000000000, numAttempts := 1\<rparr>) 0
         ''x, y TooManyRequests (429)'' = Inr (- 8446744073709551616)" by code_simp
  have n: "sint (- 8446744073709551616 :: Duration) < (10000000000000 * 1 + 0) * 1000000"
    by simp
  from h0 h1 h3 r n show ?thesis by blast
qed

text \<open>
  C5.  As stated the claim fails twice.  The code tests \<open>MaxRetryCount > -1\<close>, so a
  value below \<open>-1\<close> takes the growing backoff of the unbounded policy, not the fixed
  one; and \<open>FixedBackOffTimeMs\<close> milliseconds wrap around when they do not fit
  \<open>time.Duration\<close>.  Amended: for every policy with \<open>MaxRetryCount > -1\<close> (that is,
  \<open>\<ge> 0\<close>) and every message that contains the marker and has a second
  comma-delimited fragment whose key does not trim to \<open>RetryAfterMs\<close>,
  \<open>getRetryAfterMs\<close> returns \<open>time.Duration(FixedBackOffTimeMs) * time.Millisecond\<close>,
  which is exactly \<open>FixedBackOffTimeMs\<close> milliseconds when
  \<open>-9223372036854 \<le> FixedBackOffTimeMs \<le> 9223372036854\<close>.
\<close>

theorem fixed_backoff_when_bounded:
  assumes "Contains errMsg rateLimitingErrPart"
    and "1 < length (Split errMsg CHR '','')"
    and "TrimSpace (hd (Split (Split errMsg CHR '','' ! 1) CHR ''='')) \<noteq> retryAfterKey"
    and "- 1 < sint (MaxRetryCount crp)"
  shows "getRetryAfterMs crp salt errMsg = Inr (FixedBackOffTimeMs crp * Millisecond)
     \<and> (- 9223372036854 \<le> sint (FixedBackOffTimeMs crp)
          \<and> sint (FixedBackOffTimeMs crp) \<le> 9223372036854
        \<longrightarrow> sint (FixedBackOffTimeMs crp * Millisecond)
              = sint (FixedBackOffTimeMs crp) * 1000000)"
proof -
  have "getRetryAfterMs crp salt errMsg = Inr (FixedBackOffTimeMs crp * Millisecond)"
    using getRetryAfterMs_no_key [OF assms(1-3), of crp salt] assms(4) by simp
  moreover have "sint (FixedBackOffTimeMs crp * Millisecond)
                   = sint (FixedBackOffTimeMs crp) * 1000000"
    if "- 9223372036854 \<le> sint (FixedBackOffTimeMs crp)"
      and "sint (FixedBackOffTimeMs crp) \<le> 9223372036854"
    using that by (rule sint_ms)
  ultimately show ?thesis by blast
qed

text \<open>The theorem at the policy and the message of the repository's test.\<close>

theorem fixed_backoff_when_bounded_witness:
  "Contains rateLimitedErrMsgWithoutRetryAfterMs rateLimitingErrPart
   \<and> 1 < length (Split rateLimitedErrMsgWithoutRetryAfterMs CHR '','')
   \<and> TrimSpace (hd (Split (Split rateLimitedErrMsgWithoutRetryAfterMs CHR '','' ! 1) CHR ''=''))
       \<noteq> retryAfterKey
   \<and> - 1 < sint (MaxRetryCount (NewCosmosRetryPolicy 5))
   \<and> getRetryAfterMs (NewCosmosRetryPolicy 5) 0 rateLimitedErrMsgWithoutRetryAfterMs
       = Inr (5000 * Millisecond)
   \<and> sint (5000 * Millisecond :: Duration) = 5000 * 1000000"
proof -
  let ?crp = "NewCosmosRetryPolicy 5"
  have h1: "Contains rateLimitedErrMsgWithoutRetryAfterMs rateLimitingErrPart" by code_simp
  have h2: "1 < length (Split rateLimitedErrMsgWithoutRetryAfterMs CHR '','')" by code_simp
  have h3: "TrimSpace (hd (Split (Split rateLimitedErrMsgWithoutRetryAfterMs CHR '','' ! 1)
              CHR ''='')) \<noteq> retryAfterKey" by code_simp
  have h4: "- 1 < sint (MaxRetryCount ?crp)" by (simp add: NewCosmosRetryPolicy_def)
  have f: "FixedBackOffTimeMs ?crp = 5000"
    by (simp add: NewCosmosRetryPolicy_def defaultFixedBackOffTimeMs_def)
  have s: "sint (5000 :: go_int) = 5000" by simp
  from fixed_backoff_when_bounded [OF h1 h2 h3 h4, of 0]
  have "getRetryAfterMs ?crp 0 rateLimitedErrMsgWithoutRetryAfterMs = Inr (5000 * Millisecond)"
    and "sint (5000 * Millisecond :: Duration) = 5000 * 1000000"
    by (simp_all only: f s) simp_all
  with h1 h2 h3 h4 show ?thesis by blast
qed

text \<open>The claim as stated fails at \<open>MaxRetryCount = -2\<close>, where the draw 7 gives 7 ms and not the fixed 5000 ms, and at \<open>FixedBackOffTimeMs = 10000000000000\<close>, where the duration wraps around.\<close>

theorem fixed_backoff_counterexample:
  "MaxRetryCount (NewCosmosRetryPolicy (- 2)) \<noteq> - 1
   \<and> Contains ''x, y TooManyRequests (429)'' rateLimitingErrPart
   \<and> TrimSpace (hd (Split (Split ''x, y TooManyRequests (429)'' CHR '','' ! 1) CHR ''=''))
       \<noteq> retryAfterKey
   \<and> getRetryAfterMs (NewCosmosRetryPolicy (- 2)) 7 ''x, y TooManyRequests (429)''
       = Inr (7 * Millisecond)
   \<and> FixedBackOffTimeMs (NewCosmosRetryPolicy (- 2)) * Millisecond = 5000 * Millisecond
   \<and> (7 * Millisecond :: Duration) \<noteq> 5000 * Millisecond
   \<and> getRetryAfterMs ((NewCosmosRetryPolicy 5)\<lparr>FixedBackOffTimeMs := 10000000000000\<rparr>) 0
         ''x, y TooManyRequests (429)'' = Inr (- 8446744073709551616)
   \<and> sint (- 8446744073709551616 :: Duration) \<noteq> 10000000000000 * 1000000"
proof -
  have h0: "MaxRetryCount (NewCosmosRetryPolicy (- 2)) \<noteq> - 1"
    by (simp add: NewCosmosRetryPolicy_def)
  have h1: "Contains ''x, y TooManyRequests (429)'' rateLimitingErrPart" by code_simp
  have h3: "TrimSpace (hd (Split (Split ''x, y TooManyRequests (429)'' CHR '','' ! 1) CHR ''=''))
       \<noteq> retryAfterKey" by code_simp
  have r: "getRetryAfterMs (NewCosmosRetryPolicy (- 2)) 7 ''x, y TooManyRequests (429)''
       = Inr (7 * Millisecond)" by code_simp
  have f: "FixedBackOffTimeMs (NewCosmosRetryPolicy (- 2)) * Millisecond = 5000 * Millisecond"
    by (simp add: NewCosmosRetryPolicy_def defaultFixedBackOffTimeMs_def)
  have n: "(7 * Millisecond :: Duration) \<noteq> 5000 * Millisecond"
    by (simp add: Millisecond_def)
  have r2: "getRetryAfterMs ((NewCosmosRetryPolicy 5)\<lparr>FixedBackOffTimeMs := 10000000000000\<rparr>) 0
         ''x, y TooManyRequests (429)'' = Inr (- 8446744073709551616)" by code_simp
  have n2: "sint (- 8446744073709551616 :: Duration) \<noteq> 10000000000000 * 1000000" by simp
  from h0 h1 h3 r f n r2 n2 show ?thesis by blast
qed

text \<open>
  C6.  For every error outside the driver's three request errors whose message does not
  contain the marker \<open>TooManyRequests (429)\<close>, \<open>getRetryAfterMs\<close> returns the sentinel
  duration \<open>-1\<close> (one nanosecond below zero), and \<open>GetRetryType\<close> returns \<open>Rethrow\<close>
  without sleeping.  The sentinel is distinct from every duration that a message with
  the marker produces, for any policy and any random draw: such a duration is a
  multiple of \<open>1000000\<close> in 64-bit arithmetic, hence even, and \<open>-1\<close> is odd.
\<close>

theorem no_marker_gives_sentinel_and_rethrow:
  assumes "\<not> Contains errMsg rateLimitingErrPart"
  shows "getRetryAfterMs crp salt errMsg = Inr (- 1)
     \<and> sint (- 1 :: Duration) < 0
     \<and> GetRetryType crp salt (OtherError errMsg) = Inr (Rethrow, None)
     \<and> (\<forall>crp' salt' errMsg' d.
           Contains errMsg' rateLimitingErrPart \<and> getRetryAfterMs crp' salt' errMsg' = Inr d
           \<longrightarrow> d \<noteq> - 1)"
proof -
  have s: "getRetryAfterMs crp salt errMsg = Inr (- 1)"
    using assms by (rule getRetryAfterMs_no_marker)
  have n: "d \<noteq> - 1"
    if "Contains errMsg' rateLimitingErrPart" and "getRetryAfterMs crp' salt' errMsg' = Inr d"
    for crp' salt' errMsg' d
    using marker_gives_ms [OF that] by (auto simp: ms_not_sentinel)
  have g: "GetRetryType crp salt (OtherError errMsg) = Inr (Rethrow, None)"
    by (simp add: GetRetryType_def s)
  have m: "sint (- 1 :: Duration) < 0" by simp
  from s m g n show ?thesis by blast
qed

theorem no_marker_gives_sentinel_and_rethrow_witness:
  "\<not> Contains ''error: today is not your day!'' rateLimitingErrPart
   \<and> getRetryAfterMs (NewCosmosRetryPolicy 5) 0 ''error: today is not your day!'' = Inr (- 1)
   \<and> GetRetryType (NewCosmosRetryPolicy 5) 0 (OtherError ''error: today is not your day!'')
       = Inr (Rethrow, None)
   \<and> Contains rateLimitedErrMsg rateLimitingErrPart
   \<and> getRetryAfterMs (NewCosmosRetryPolicy 5) 0 rateLimitedErrMsg = Inr 42000000
   \<and> (42000000 :: Duration) \<noteq> - 1"
proof -
  have h: "\<not> Contains ''error: today is not your day!'' rateLimitingErrPart"
    by code_simp
  have c: "Contains rateLimitedErrMsg rateLimitingErrPart"
    by code_simp
  have r: "getRetryAfterMs (NewCosmosRetryPolicy 5) 0 rateLimitedErrMsg = Inr 42000000"
    by code_simp
  from no_marker_gives_sentinel_and_rethrow [OF h, of "NewCosmosRetryPolicy 5" 0] c r h
  show ?thesis by blast
qed

text \<open>
  C7.  As stated the claim fails: nothing in the code clamps the count of milliseconds
  it converts, so the server value \<open>-5\<close> is returned as \<open>-5\<close> ms, a negative duration
  that is not the sentinel.  Amended: whenever \<open>getRetryAfterMs\<close> returns a duration
  \<open>d\<close>, either the marker is absent and \<open>d\<close> is the sentinel \<open>-1\<close>, or the marker is
  present, \<open>d\<close> is not the sentinel, and \<open>d = m * 1000000\<close> in 64-bit arithmetic for the
  count of milliseconds \<open>m\<close> the code selects: the value \<open>Atoi\<close> returns for the text
  after the key \<open>RetryAfterMs\<close>, or \<open>FixedBackOffTimeMs\<close> when the key is absent and
  \<open>MaxRetryCount > -1\<close>, or \<open>GrowingBackOffTimeMs * numAttempts + salt\<close> when the key is
  absent and \<open>MaxRetryCount \<le> -1\<close>.  Then \<open>d \<ge> 0\<close> when \<open>0 \<le> m \<le> 9223372036854\<close>, and
  \<open>d < 0\<close> when \<open>-9223372036854 \<le> m < 0\<close>.
\<close>

theorem returned_duration_characterised:
  assumes "getRetryAfterMs crp salt errMsg = Inr d"
  shows "if Contains errMsg rateLimitingErrPart
         then d \<noteq> - 1 \<and>
           (\<exists>m. d = m * Millisecond
              \<and> ((\<exists>key val vs. Split (Split errMsg CHR '','' ! 1) CHR ''='' = key # val # vs
                     \<and> TrimSpace key = retryAfterKey \<and> m = fst (Atoi val))
                 \<or> (TrimSpace (hd (Split (Split errMsg CHR '','' ! 1) CHR ''='')) \<noteq> retryAfterKey
                     \<and> - 1 < sint (MaxRetryCount crp) \<and> m = FixedBackOffTimeMs crp)
                 \<or> (TrimSpace (hd (Split (Split errMsg CHR '','' ! 1) CHR ''='')) \<noteq> retryAfterKey
                     \<and> sint (MaxRetryCount crp) \<le> - 1
                     \<and> m = GrowingBackOffTimeMs crp * numAttempts crp + of_nat salt))
              \<and> (0 \<le> sint m \<and> sint m \<le> 9223372036854 \<longrightarrow> 0 \<le> sint d)
              \<and> (- 9223372036854 \<le> sint m \<and> sint m < 0 \<longrightarrow> sint d < 0))
         else d = - 1"
proof (cases "Contains errMsg rateLimitingErrPart")
  case False
  with assms show ?thesis by (simp add: getRetryAfterMs_no_marker)
next
  case True
  let ?part = "Split errMsg CHR '','' ! 1"
  have sign: "(0 \<le> sint m \<and> sint m \<le> 9223372036854 \<longrightarrow> 0 \<le> sint (m * Millisecond))
            \<and> (- 9223372036854 \<le> sint m \<and> sint m < 0 \<longrightarrow> sint (m * Millisecond) < 0)"
    for m :: go_int
    using sint_ms [of m] by auto
  have len: "1 < length (Split errMsg CHR '','')"
  proof (rule ccontr)
    assume "\<not> 1 < length (Split errMsg CHR '','')"
    then have "length (Split errMsg CHR '','') \<le> 1" by simp
    with True have "getRetryAfterMs crp salt errMsg = Inl IndexOutOfRange"
      by (rule getRetryAfterMs_no_comma)
    with assms show False by simp
  qed
  obtain key rest where k: "Split ?part CHR ''='' = key # rest"
    using Split_nonempty by (cases "Split ?part CHR ''=''") auto
  have sel: "\<exists>m. d = m * Millisecond
              \<and> ((\<exists>key val vs. Split ?part CHR ''='' = key # val # vs
                     \<and> TrimSpace key = retryAfterKey \<and> m = fst (Atoi val))
                 \<or> (TrimSpace (hd (Split ?part CHR ''='')) \<noteq> retryAfterKey
                     \<and> - 1 < sint (MaxRetryCount crp) \<and> m = FixedBackOffTimeMs crp)
                 \<or> (TrimSpace (hd (Split ?part CHR ''='')) \<noteq> retryAfterKey
                     \<and> sint (MaxRetryCount crp) \<le> - 1
                     \<and> m = GrowingBackOffTimeMs crp * numAttempts crp + of_nat salt))
              \<and> (0 \<le> sint m \<and> sint m \<le> 9223372036854 \<longrightarrow> 0 \<le> sint d)
              \<and> (- 9223372036854 \<le> sint m \<and> sint m < 0 \<longrightarrow> sint d < 0)"
  proof (cases "TrimSpace key = retryAfterKey")
    case isKey: True
    have "rest \<noteq> []"
    proof
      assume "rest = []"
      with k have "Split ?part CHR ''='' = [key]" by simp
      with True len have "getRetryAfterMs crp salt errMsg = Inl IndexOutOfRange"
        using isKey by (rule getRetryAfterMs_key_no_value)
      with assms show False by simp
    qed
    then obtain val vs where kv: "Split ?part CHR ''='' = key # val # vs"
      using k by (cases rest) auto
    from getRetryAfterMs_key [OF True len kv isKey, of crp salt] assms
    have "d = fst (Atoi val) * Millisecond" by simp
    with kv isKey sign [of "fst (Atoi val)"] show ?thesis by blast
  next
    case noKey: False
    with k have nk: "TrimSpace (hd (Split ?part CHR ''='')) \<noteq> retryAfterKey" by simp
    show ?thesis
    proof (cases "- 1 < sint (MaxRetryCount crp)")
      case bounded: True
      with getRetryAfterMs_no_key [OF True len nk, of crp salt] assms
      have "d = FixedBackOffTimeMs crp * Millisecond" by simp
      with nk bounded sign [of "FixedBackOffTimeMs crp"] show ?thesis by blast
    next
      case unbounded: False
      with getRetryAfterMs_no_key [OF True len nk, of crp salt] assms
      have "d = (GrowingBackOffTimeMs crp * numAttempts crp + of_nat salt) * Millisecond"
        by simp
      moreover from unbounded have "sint (MaxRetryCount crp) \<le> - 1" by simp
      ultimately show ?thesis
        using nk sign [of "GrowingBackOffTimeMs crp * numAttempts crp + of_nat salt"]
        by blast
    qed
  qed
  moreover have "d \<noteq> - 1"
    using marker_gives_ms [OF True assms] by (auto simp: ms_not_sentinel)
  ultimately show ?thesis using True by simp
qed

text \<open>The theorem at the message of the repository's test.\<close>

theorem returned_duration_characterised_witness:
  "getRetryAfterMs (NewCosmosRetryPolicy 5) 0 rateLimitedErrMsg = Inr 42000000
   \<and> Contains rateLimitedErrMsg rateLimitingErrPart
   \<and> (42000000 :: Duration) \<noteq> - 1
   \<and> (\<exists>m. (42000000 :: Duration) = m * Millisecond)"
proof -
  have h: "getRetryAfterMs (NewCosmosRetryPolicy 5) 0 rateLimitedErrMsg = Inr 42000000"
    by code_simp
  have c: "Contains rateLimitedErrMsg rateLimitingErrPart" by code_simp
  from returned_duration_characterised [OF h] c
  have "(42000000 :: Duration) \<noteq> - 1 \<and> (\<exists>m. (42000000 :: Duration) = m * Millisecond)"
    by (simp only: if_True) blast
  with h c show ?thesis by blast
qed

text \<open>The claim as stated fails at \<open>RetryAfterMs=-5\<close>: the duration is \<open>-5\<close> ms, negative and not the sentinel.\<close>

theorem negative_server_value_counterexample:
  "Contains ''x, RetryAfterMs=-5, TooManyRequests (429)'' rateLimitingErrPart
   \<and> getRetryAfterMs (NewCosmosRetryPolicy 5) 0 ''x, RetryAfterMs=-5, TooManyRequests (429)''
       = Inr (- 5000000)
   \<and> sint (- 5000000 :: Duration) < 0
   \<and> (- 5000000 :: Duration) \<noteq> - 1"
proof -
  have c: "Contains ''x, RetryAfterMs=-5, TooManyRequests (429)'' rateLimitingErrPart"
    by code_simp
  have r: "getRetryAfterMs (NewCosmosRetryPolicy 5) 0
             ''x, RetryAfterMs=-5, TooManyRequests (429)'' = Inr (- 5000000)"
    by code_simp
  have n: "sint (- 5000000 :: Duration) < 0" by simp
  have e: "(- 5000000 :: Duration) \<noteq> - 1" by simp
  from c r n e show ?thesis by blast
qed




text \<open>
  C9.  For every policy, whatever its three configuration fields and its recorded
  attempt count, \<open>GetRetryType\<close> answers a read timeout, an unavailable error and a
  write timeout with \<open>Retry\<close>, and does not sleep.
\<close>

theorem timeouts_retry_immediately:
  "GetRetryType crp salt RequestErrReadTimeout = Inr (Retry, None)
   \<and> GetRetryType crp salt RequestErrUnavailable = Inr (Retry, None)
   \<and> GetRetryType crp salt RequestErrWriteTimeout = Inr (Retry, None)"
  by (simp add: GetRetryType_def)

text \<open>
  C10.  The claim: a fresh policy has recorded 0 attempts, so for the unbounded policy
  a rate-limit message with no \<open>RetryAfterMs\<close> key yields the jitter alone, at least
  0 ms and less than 2000 ms, whatever \<open>GrowingBackOffTimeMs\<close> is.
  \<open>NewCosmosRetryPolicy\<close> does leave \<open>numAttempts\<close> at 0.  But the message
  \<open>TooManyRequests (429)\<close> is a rate-limit message with no \<open>RetryAfterMs\<close> key, and on it
  the policy \<open>NewCosmosRetryPolicy(-1)\<close> returns no delay: the message has no comma,
  \<open>parts[1]\<close> is out of range, and the call panics, for every \<open>GrowingBackOffTimeMs\<close>
  and every draw.  This is the unchecked index of C2.
\<close>

theorem fresh_unbounded_policy_panics_without_comma:
  "numAttempts (NewCosmosRetryPolicy (- 1)) = 0
   \<and> MaxRetryCount ((NewCosmosRetryPolicy (- 1))\<lparr>GrowingBackOffTimeMs := g\<rparr>) = - 1
   \<and> Contains ''TooManyRequests (429)'' rateLimitingErrPart
   \<and> \<not> Contains ''TooManyRequests (429)'' retryAfterKey
   \<and> getRetryAfterMs ((NewCosmosRetryPolicy (- 1))\<lparr>GrowingBackOffTimeMs := g\<rparr>) salt
         ''TooManyRequests (429)'' = Inl IndexOutOfRange
   \<and> GetRetryType ((NewCosmosRetryPolicy (- 1))\<lparr>GrowingBackOffTimeMs := g\<rparr>) salt
         (OtherError ''TooManyRequests (429)'') = Inl IndexOutOfRange"
proof -
  let ?crp = "(NewCosmosRetryPolicy (- 1))\<lparr>GrowingBackOffTimeMs := g\<rparr>"
  have z: "numAttempts (NewCosmosRetryPolicy (- 1)) = 0"
    and m: "MaxRetryCount ?crp = - 1"
    by (simp_all add: NewCosmosRetryPolicy_def)
  have c: "Contains ''TooManyRequests (429)'' rateLimitingErrPart" by code_simp
  have n: "\<not> Contains ''TooManyRequests (429)'' retryAfterKey" by code_simp
  have l: "length (Split ''TooManyRequests (429)'' CHR '','') \<le> 1" by code_simp
  have p: "getRetryAfterMs ?crp salt ''TooManyRequests (429)'' = Inl IndexOutOfRange"
    using c l by (rule getRetryAfterMs_no_comma)
  then have q: "GetRetryType ?crp salt (OtherError ''TooManyRequests (429)'')
                  = Inl IndexOutOfRange"
    by (simp add: GetRetryType_def)
  from z m c n p q show ?thesis by blast
qed

text \<open>
  On the messages that reach the growing backoff, those that contain the marker and have
  a second comma-delimited fragment whose key does not trim to \<open>RetryAfterMs\<close>, the
  delay of the fresh unbounded policy is the jitter alone, for every
  \<open>GrowingBackOffTimeMs\<close>.
\<close>

lemma fresh_unbounded_policy_jitter_with_second_fragment:
  assumes "Contains errMsg rateLimitingErrPart"
    and "1 < length (Split errMsg CHR '','')"
    and "TrimSpace (hd (Split (Split errMsg CHR '','' ! 1) CHR ''='')) \<noteq> retryAfterKey"
    and "salt < growingBackOffSaltMillis"
  shows "numAttempts (NewCosmosRetryPolicy maxRetryCount) = 0
     \<and> (\<exists>d. getRetryAfterMs ((NewCosmosRetryPolicy (- 1))\<lparr>GrowingBackOffTimeMs := g\<rparr>)
                salt errMsg = Inr d
              \<and> sint d = int salt * 1000000 \<and> 0 \<le> sint d \<and> sint d < 2000 * 1000000)"
proof -
  let ?crp = "(NewCosmosRetryPolicy (- 1))\<lparr>GrowingBackOffTimeMs := g\<rparr>"
  have z: "numAttempts (NewCosmosRetryPolicy maxRetryCount) = 0"
    by (simp add: NewCosmosRetryPolicy_def)
  have "\<not> - 1 < sint (MaxRetryCount ?crp)" by (simp add: NewCosmosRetryPolicy_def)
  then have "getRetryAfterMs ?crp salt errMsg
               = Inr ((GrowingBackOffTimeMs ?crp * numAttempts ?crp + of_nat salt) * Millisecond)"
    using getRetryAfterMs_no_key [OF assms(1-3), of ?crp salt] by simp
  then have r: "getRetryAfterMs ?crp salt errMsg = Inr (of_nat salt * Millisecond)"
    by (simp add: NewCosmosRetryPolicy_def)
  from assms(4) have b: "salt < 2000" by (simp add: growingBackOffSaltMillis_def)
  have "sint (0 * 0 + of_nat salt :: go_int) = sint (0 :: go_int) * sint (0 :: go_int) + int salt"
    using b by (intro sint_growing) simp_all
  then have s: "sint (of_nat salt :: go_int) = int salt" by simp
  have d: "sint (of_nat salt * Millisecond :: Duration) = int salt * 1000000"
    using sint_ms [of "of_nat salt"] b by (simp add: s)
  with b have "0 \<le> sint (of_nat salt * Millisecond :: Duration)"
    and "sint (of_nat salt * Millisecond :: Duration) < 2000 * 1000000" by simp_all
  with z r d show ?thesis by blast
qed

end
